theory Spec2Isabelle
  imports Main "HOL-Library.Multiset" "HOL-Library.Log_Nat"
begin

section \<open>The notebook: data model\<close>

text \<open>
  \<^verbatim>\<open>Metrics.ipynb\<close> holds the only executable code of the repository: a price fetch, a
  portfolio valuation and a comparison of two portfolios.

  A portfolio is the Python dictionary \<^verbatim>\<open>{"currency": ..., "assets": [{"symbol": ...,
  "quantity": ...}, ...]}\<close>. Both dictionaries become records, so the subscripts
  \<^verbatim>\<open>portfolio["assets"]\<close>, \<^verbatim>\<open>asset["symbol"]\<close> and \<^verbatim>\<open>asset["quantity"]\<close> always find
  their key. The number type \<open>'a\<close> is the Python type of the quantities and prices: \<open>int\<close>
  when all of them are Python ints, whose arithmetic is exact; \<open>pyfloat\<close> (below) when all
  of them are Python floats; \<open>pynum\<close> (below) when ints and floats meet. The integer
  literal \<^verbatim>\<open>0\<close> of the source is the zero of that type: among floats it acts as \<^verbatim>\<open>0.0\<close>, to
  which it is converted exactly.
\<close>

record 'a asset =
  symbol :: string
  quantity :: 'a

record 'a portfolio =
  currency :: string
  assets :: "'a asset list"

type_synonym 'a price_map = "string \<rightharpoonup> 'a"

text \<open>
  What a call writes to standard output. A line is a list of fragments: literal text, a
  number rendered by the format specification \<^verbatim>\<open>:.2f\<close>, or a price dictionary rendered by
  \<^verbatim>\<open>print\<close>.
\<close>

datatype 'a fragment = Text string | Fixed2 'a | Dict "'a price_map"

type_synonym 'a line = "'a fragment list"

text \<open>\<^verbatim>\<open>d.get(k, dflt)\<close>: the value under \<open>k\<close>, or \<open>dflt\<close> when the key is absent. It never raises.\<close>

definition dict_get :: "('k \<rightharpoonup> 'v) \<Rightarrow> 'k \<Rightarrow> 'v \<Rightarrow> 'v" where
  "dict_get d k dflt = (case d k of Some v \<Rightarrow> v | None \<Rightarrow> dflt)"

section \<open>Portfolio valuation\<close>

text \<open>
  \<^verbatim>\<open>
  def calculate_portfolio_value(portfolio, prices):
      total_value = 0
      for asset in portfolio["assets"]:
          symbol = asset["symbol"]
          quantity = asset["quantity"]
          price = prices.get(symbol, 0)  # Get price, default to 0 if not found
          total_value += quantity * price
      return total_value
  \<close>
  The loop state is the running total together with the lines written so far. The body
  contains no \<^verbatim>\<open>print\<close> and no logging call, so an iteration leaves the lines as they are.
\<close>

fun valuation_loop :: "'a::{plus,times,zero} price_map \<Rightarrow> 'a asset list \<Rightarrow> 'a \<times> 'a line list \<Rightarrow> 'a \<times> 'a line list" where
  "valuation_loop prices [] st = st"
| "valuation_loop prices (asset # rest) (total_value, out) =
     (let symb = symbol asset;
          qty = quantity asset;
          price = dict_get prices symb 0
      in valuation_loop prices rest (total_value + qty * price, out))"

definition calculate_portfolio_value :: "'a::{plus,times,zero} portfolio \<Rightarrow> 'a price_map \<Rightarrow> 'a \<times> 'a line list" where
  "calculate_portfolio_value portfolio prices = valuation_loop prices (assets portfolio) (0, [])"

text \<open>The value the call returns, and what it wrote while running.\<close>

definition portfolio_value :: "'a::{plus,times,zero} portfolio \<Rightarrow> 'a price_map \<Rightarrow> 'a" where
  "portfolio_value portfolio prices = fst (calculate_portfolio_value portfolio prices)"

definition valuation_output :: "'a::{plus,times,zero} portfolio \<Rightarrow> 'a price_map \<Rightarrow> 'a line list" where
  "valuation_output portfolio prices = snd (calculate_portfolio_value portfolio prices)"

text \<open>
  The valuation as the specification words it: the sum over the balance entries of
  quantity times price, an entry without a price counting as zero.
\<close>

definition value_in_quote :: "'a::semiring_0 asset list \<Rightarrow> 'a price_map \<Rightarrow> 'a" where
  "value_in_quote balances price_map =
     (\<Sum>b\<leftarrow>balances. case price_map (symbol b) of Some p \<Rightarrow> quantity b * p | None \<Rightarrow> 0)"

section \<open>Price fetch\<close>

text \<open>
  \<^verbatim>\<open>
  COINGECKO_IDS = {"BTC": "bitcoin", "ETH": "ethereum", "DOGE": "dogecoin", "SOL": "solana",
                   "ADA": "cardano", "OKB": "okb", "USDT": "tether", "AGIX": "singularitynet"}
  \<close>
  A Python dictionary keeps its insertion order, which \<^verbatim>\<open>values()\<close> and iteration follow, so
  the table is an association list.
\<close>

definition COINGECKO_IDS :: "(string \<times> string) list" where
  "COINGECKO_IDS =
     [(''BTC'', ''bitcoin''), (''ETH'', ''ethereum''), (''DOGE'', ''dogecoin''),
      (''SOL'', ''solana''), (''ADA'', ''cardano''), (''OKB'', ''okb''),
      (''USDT'', ''tether''), (''AGIX'', ''singularitynet'')]"

text \<open>\<^verbatim>\<open>sep.join(xs)\<close>\<close>

fun join :: "string \<Rightarrow> string list \<Rightarrow> string" where
  "join sep [] = []"
| "join sep [x] = x"
| "join sep (x # y # ys) = x @ sep @ join sep (y # ys)"

text \<open>
  The exceptions the fetch can end with: \<^verbatim>\<open>requests.get\<close> fails, \<^verbatim>\<open>response.json()\<close> finds
  no JSON, or a dictionary subscript misses its key.
\<close>

datatype py_error = RequestException | JSONDecodeError | KeyError string

text \<open>
  The provider is a parameter: it takes the URL and the query parameters and answers with
  the decoded body (\<^verbatim>\<open>requests.get(url, params=params).json()\<close>) or with an exception. The
  body has the provider's shape, a dictionary from provider id to a dictionary from
  currency to price.
\<close>

type_synonym 'a response = "string \<rightharpoonup> (string \<rightharpoonup> 'a)"

type_synonym 'a http_get = "string \<Rightarrow> (string \<times> string) list \<Rightarrow> py_error + 'a response"

definition api_url :: string where
  "api_url = ''https://api.coingecko.com/api/v3/simple/price''"

definition request_params :: "(string \<times> string) list" where
  "request_params =
     [(''ids'', join '','' (map snd COINGECKO_IDS)), (''vs_currencies'', ''usd'')]"

text \<open>
  \<^verbatim>\<open>
  prices = {symbol: data.get(COINGECKO_IDS[symbol], {}).get("usd", 0) for symbol in COINGECKO_IDS}
  \<close>
  The comprehension visits the keys in order and stores one entry per key.
\<close>

fun price_comprehension :: "'a::zero response \<Rightarrow> string list \<Rightarrow> 'a price_map \<Rightarrow> py_error + 'a price_map" where
  "price_comprehension data [] prices = Inr prices"
| "price_comprehension data (symb # rest) prices =
     (case map_of COINGECKO_IDS symb of
        None \<Rightarrow> Inl (KeyError symb)
      | Some coin_id \<Rightarrow>
          price_comprehension data rest
            (prices(symb \<mapsto> dict_get (dict_get data coin_id Map.empty) ''usd'' 0)))"

text \<open>
  \<^verbatim>\<open>
  def fetch_crypto_prices():
      url = "https://api.coingecko.com/api/v3/simple/price"
      params = {"ids": ",".join(COINGECKO_IDS.values()), "vs_currencies": "usd"}
      response = requests.get(url, params=params)
      data = response.json()
      prices = {...}
      print("Fetched Prices:", prices)  # Debug: Check fetched prices
      return prices
  \<close>
\<close>

definition fetch_crypto_prices :: "'a::zero http_get \<Rightarrow> py_error + ('a price_map \<times> 'a line list)" where
  "fetch_crypto_prices http_get =
     (case http_get api_url request_params of
        Inl e \<Rightarrow> Inl e
      | Inr data \<Rightarrow>
          (case price_comprehension data (map fst COINGECKO_IDS) Map.empty of
             Inl e \<Rightarrow> Inl e
           | Inr prices \<Rightarrow> Inr (prices, [[Text ''Fetched Prices:'', Dict prices]])))"

text \<open>The price the provider's answer holds for a provider id, 0 when it holds none.\<close>

definition usd_price :: "'a::zero response \<Rightarrow> string \<Rightarrow> 'a" where
  "usd_price data coin_id =
     (case data coin_id of
        None \<Rightarrow> 0
      | Some entry \<Rightarrow> (case entry ''usd'' of None \<Rightarrow> 0 | Some v \<Rightarrow> v))"

section \<open>Comparison of two portfolios\<close>

text \<open>
  \<^verbatim>\<open>
  if portfolio1_value > portfolio2_value:
      print(f"AI Portfolio performed better! {portfolio1_value - portfolio2_value:.2f}$")
  elif portfolio2_value > portfolio1_value:
      print(f"Portfolio 2 performed worse! -{portfolio1_value - portfolio2_value:.2f}$")
  else:
      print("Both portfolios have the same value!")
  \<close>
\<close>

definition compare_portfolios :: "'a::{ord,minus} \<Rightarrow> 'a \<Rightarrow> 'a line" where
  "compare_portfolios portfolio1_value portfolio2_value =
     (if portfolio1_value > portfolio2_value then
        [Text ''AI Portfolio performed better! '',
         Fixed2 (portfolio1_value - portfolio2_value), Text ''$'']
      else if portfolio2_value > portfolio1_value then
        [Text ''Portfolio 2 performed worse! -'',
         Fixed2 (portfolio1_value - portfolio2_value), Text ''$'']
      else [Text ''Both portfolios have the same value!''])"

section \<open>Python floats\<close>

text \<open>
  The quantities and prices of the notebook's own data are mostly Python floats (IEEE 754
  binary64, rounding to nearest, ties to even). A float is modelled by the number it
  denotes: a rational, an infinity (\<open>Infinite True\<close> is the negative one) or NaN. The two
  zeros are one value, as they are for \<^verbatim>\<open>==\<close>; addition and multiplication never tell
  them apart in a non-zero result.
\<close>

datatype pyfloat = Finite rat | Infinite bool | NaN

text \<open>\<open>floor_log2 q\<close> is the exponent \<open>e\<close> with \<open>2^e \<le> |q| < 2^(e+1)\<close>, for \<open>q \<noteq> 0\<close>.\<close>

definition floor_log2 :: "rat \<Rightarrow> int" where
  "floor_log2 q =
     (let (a, b) = quotient_of \<bar>q\<bar>; d = bitlen a - bitlen b
      in if power_int 2 d \<le> \<bar>q\<bar> then d else d - 1)"

definition round_half_even :: "rat \<Rightarrow> int" where
  "round_half_even q =
     (let f = \<lfloor>q\<rfloor>; r = q - of_int f
      in if r < 1 / 2 then f else if 1 / 2 < r then f + 1 else if even f then f else f + 1)"

text \<open>
  The float nearest to an exact result: 53 significant bits, the spacing never below
  \<open>2^-1074\<close> (subnormals), and an infinity once the rounded magnitude reaches \<open>2^1024\<close>.
\<close>

definition round64 :: "rat \<Rightarrow> pyfloat" where
  "round64 q =
     (if q = 0 then Finite 0
      else let ulp = power_int 2 (max (floor_log2 q - 52) (- 1074));
               r = of_int (round_half_even (q / ulp)) * ulp
           in if 1024 \<le> floor_log2 r then Infinite (q < 0) else Finite r)"

instantiation pyfloat :: "{zero,plus,times}"
begin

definition zero_pyfloat :: pyfloat where
  "zero_pyfloat = Finite 0"

definition plus_pyfloat :: "pyfloat \<Rightarrow> pyfloat \<Rightarrow> pyfloat" where
  "plus_pyfloat x y =
     (case (x, y) of
        (Finite a, Finite b) \<Rightarrow> round64 (a + b)
      | (Finite a, Infinite t) \<Rightarrow> Infinite t
      | (Infinite s, Finite b) \<Rightarrow> Infinite s
      | (Infinite s, Infinite t) \<Rightarrow> if s = t then Infinite s else NaN
      | _ \<Rightarrow> NaN)"

definition times_pyfloat :: "pyfloat \<Rightarrow> pyfloat \<Rightarrow> pyfloat" where
  "times_pyfloat x y =
     (case (x, y) of
        (Finite a, Finite b) \<Rightarrow> round64 (a * b)
      | (Finite a, Infinite t) \<Rightarrow> if a = 0 then NaN else Infinite (t \<noteq> (a < 0))
      | (Infinite s, Finite b) \<Rightarrow> if b = 0 then NaN else Infinite (s \<noteq> (b < 0))
      | (Infinite s, Infinite t) \<Rightarrow> Infinite (s \<noteq> t)
      | _ \<Rightarrow> NaN)"

instance ..

end

text \<open>
  Subtraction and comparison of floats. Subtraction rounds like addition; a comparison
  with NaN is false.
\<close>

instantiation pyfloat :: "{minus,ord}"
begin

definition minus_pyfloat :: "pyfloat \<Rightarrow> pyfloat \<Rightarrow> pyfloat" where
  "minus_pyfloat x y =
     (case (x, y) of
        (Finite a, Finite b) \<Rightarrow> round64 (a - b)
      | (Finite a, Infinite t) \<Rightarrow> Infinite (\<not> t)
      | (Infinite s, Finite b) \<Rightarrow> Infinite s
      | (Infinite s, Infinite t) \<Rightarrow> if s \<noteq> t then Infinite s else NaN
      | _ \<Rightarrow> NaN)"

definition less_pyfloat :: "pyfloat \<Rightarrow> pyfloat \<Rightarrow> bool" where
  "less_pyfloat x y =
     (case (x, y) of
        (Finite a, Finite b) \<Rightarrow> a < b
      | (Finite a, Infinite t) \<Rightarrow> \<not> t
      | (Infinite s, Finite b) \<Rightarrow> s
      | (Infinite s, Infinite t) \<Rightarrow> s \<and> \<not> t
      | _ \<Rightarrow> False)"

definition less_eq_pyfloat :: "pyfloat \<Rightarrow> pyfloat \<Rightarrow> bool" where
  "less_eq_pyfloat x y =
     (case (x, y) of
        (Finite a, Finite b) \<Rightarrow> a \<le> b
      | (Finite a, Infinite t) \<Rightarrow> \<not> t
      | (Infinite s, Finite b) \<Rightarrow> s
      | (Infinite s, Infinite t) \<Rightarrow> s = t \<or> s
      | _ \<Rightarrow> False)"

instance ..

end

text \<open>
  Not every rational is a float: \<open>Finite q\<close> is one when rounding leaves \<open>q\<close> as it is.
  Every result of an operation, and every literal, is one.
\<close>

definition is_float64 :: "pyfloat \<Rightarrow> bool" where
  "is_float64 x = (case x of Finite q \<Rightarrow> round64 q = Finite q | Infinite s \<Rightarrow> True | NaN \<Rightarrow> True)"

text \<open>Python reads a decimal literal as the nearest float.\<close>

definition float_literal :: "rat \<Rightarrow> pyfloat" where
  "float_literal q = round64 q"

section \<open>Python numbers\<close>

text \<open>
  A number of the notebook is a Python int or a Python float, and one list of assets may
  hold both. \<open>Raised_OverflowError\<close> stands for the exception \<^verbatim>\<open>OverflowError: int too large
  to convert to float\<close>, the only one arithmetic on these numbers can raise: the exception
  ends the computation, and in the model every later operation keeps the value. A line
  with a fragment that holds it is never printed: building the line raised.
\<close>

datatype pynum = PyInt int | PyFloat pyfloat | Raised_OverflowError

text \<open>\<^verbatim>\<open>float(n)\<close>: the nearest float, or no float when \<open>n\<close> is too large.\<close>

definition float_of_int :: "int \<Rightarrow> pyfloat option" where
  "float_of_int n = (case round64 (of_int n) of Finite r \<Rightarrow> Some (Finite r) | Infinite s \<Rightarrow> None | NaN \<Rightarrow> None)"

text \<open>
  A binary arithmetic operator: on two ints it is exact; when one operand is a float the
  other is converted to a float first.
\<close>

definition py_arith :: "(int \<Rightarrow> int \<Rightarrow> int) \<Rightarrow> (pyfloat \<Rightarrow> pyfloat \<Rightarrow> pyfloat) \<Rightarrow> pynum \<Rightarrow> pynum \<Rightarrow> pynum" where
  "py_arith int_op float_op x y =
     (case (x, y) of
        (PyInt a, PyInt b) \<Rightarrow> PyInt (int_op a b)
      | (PyInt a, PyFloat g) \<Rightarrow>
          (case float_of_int a of
             Some f \<Rightarrow> PyFloat (float_op f g)
           | None \<Rightarrow> Raised_OverflowError)
      | (PyFloat f, PyInt b) \<Rightarrow>
          (case float_of_int b of
             Some g \<Rightarrow> PyFloat (float_op f g)
           | None \<Rightarrow> Raised_OverflowError)
      | (PyFloat f, PyFloat g) \<Rightarrow> PyFloat (float_op f g)
      | _ \<Rightarrow> Raised_OverflowError)"

text \<open>
  The number a Python number denotes, for comparisons: Python compares an int with a
  float by their exact values, without converting the int.
\<close>

definition exact_value :: "pynum \<Rightarrow> pyfloat" where
  "exact_value x = (case x of PyInt a \<Rightarrow> Finite (of_int a) | PyFloat f \<Rightarrow> f | Raised_OverflowError \<Rightarrow> NaN)"

instantiation pynum :: "{zero,plus,times,minus,ord}"
begin

definition zero_pynum :: pynum where
  "zero_pynum = PyInt 0"

definition plus_pynum :: "pynum \<Rightarrow> pynum \<Rightarrow> pynum" where
  "plus_pynum x y = py_arith (+) (+) x y"

definition times_pynum :: "pynum \<Rightarrow> pynum \<Rightarrow> pynum" where
  "times_pynum x y = py_arith (*) (*) x y"

definition minus_pynum :: "pynum \<Rightarrow> pynum \<Rightarrow> pynum" where
  "minus_pynum x y = py_arith (-) (-) x y"

definition less_pynum :: "pynum \<Rightarrow> pynum \<Rightarrow> bool" where
  "less_pynum x y = (exact_value x < exact_value y)"

definition less_eq_pynum :: "pynum \<Rightarrow> pynum \<Rightarrow> bool" where
  "less_eq_pynum x y = (exact_value x \<le> exact_value y)"

instance ..

end

text \<open>
  The two portfolios of the notebook's \<^verbatim>\<open>data\<close>, and the prices its recorded run printed
  after \<^verbatim>\<open>Fetched Prices:\<close>. A number written without a decimal point is an int.
\<close>

definition portfolio1 :: "pynum portfolio" where
  "portfolio1 =
     \<lparr>currency = ''USDT'',
      assets =
       [\<lparr>symbol = ''BTC'', quantity = PyFloat (float_literal (101190024 / 100000000))\<rparr>,
        \<lparr>symbol = ''OKB'', quantity = PyInt 100\<rparr>,
        \<lparr>symbol = ''ETH'', quantity = PyInt 1\<rparr>,
        \<lparr>symbol = ''DOGE'', quantity = PyFloat (float_literal (862695585954 / 100000000))\<rparr>,
        \<lparr>symbol = ''SOL'', quantity = PyFloat (float_literal (750619828 / 100000000))\<rparr>,
        \<lparr>symbol = ''ADA'', quantity = PyFloat (float_literal (1348542108 / 1000000))\<rparr>,
        \<lparr>symbol = ''USDT'', quantity = PyFloat (float_literal (3000004958 / 10000000))\<rparr>,
        \<lparr>symbol = ''AGIX'', quantity = PyFloat (float_literal (308562129 / 1000000))\<rparr>]\<rparr>"

definition portfolio2 :: "pynum portfolio" where
  "portfolio2 =
     \<lparr>currency = ''USDT'',
      assets =
       [\<lparr>symbol = ''BTC'', quantity = PyInt 1\<rparr>,
        \<lparr>symbol = ''OKB'', quantity = PyInt 100\<rparr>,
        \<lparr>symbol = ''USDT'', quantity = PyFloat (float_literal (33000000509 / 10000000))\<rparr>,
        \<lparr>symbol = ''ETH'', quantity = PyInt 1\<rparr>,
        \<lparr>symbol = ''ADA'', quantity = PyFloat (float_literal (1348542108 / 1000000))\<rparr>,
        \<lparr>symbol = ''DOGE'', quantity = PyFloat (float_literal (28706896547 / 10000000))\<rparr>,
        \<lparr>symbol = ''AGIX'', quantity = PyFloat (float_literal (308562129 / 1000000))\<rparr>]\<rparr>"

definition recorded_prices :: "pynum price_map" where
  "recorded_prices =
     [''BTC'' \<mapsto> PyInt 84417,
      ''ETH'' \<mapsto> PyFloat (float_literal (193977 / 100)),
      ''DOGE'' \<mapsto> PyFloat (float_literal (175962 / 1000000)),
      ''SOL'' \<mapsto> PyFloat (float_literal (13514 / 100)),
      ''ADA'' \<mapsto> PyFloat (float_literal (752097 / 1000000)),
      ''OKB'' \<mapsto> PyFloat (float_literal (4698 / 100)),
      ''USDT'' \<mapsto> PyFloat (float_literal 1),
      ''AGIX'' \<mapsto> PyFloat (float_literal (228085 / 1000000))]"

section \<open>The auto-trader, from the specification\<close>

text \<open>
  The README names a script \<^verbatim>\<open>auto-trader.py\<close> (recommendation checks, order placement,
  the trading loop), but the repository's files do not contain it. The
  definitions of this section follow sections 3 and 4 of the specification instead.
  Amounts are numbers of any linearly ordered type.
\<close>

text \<open>Modelled from the spec: the side of an order, BUY or SELL (the script's order type is missing).\<close>

datatype side = Buy | Sell

text \<open>
  Modelled from the spec: the Trade Recommendation of section 3 as parsed from the
  recommendation source's text (the script's parser is missing). The action is kept as
  the text received: rule 2 of section 4.3 decides whether it is one of BUY, SELL, HOLD.
\<close>

record 'a recommendation =
  action :: string
  coin :: string
  amount_usd :: 'a
  reasoning :: "string option"

text \<open>Modelled from the spec: the configured risk limits of section 4.3 (the script's constants are missing).\<close>

record 'a risk_limits =
  max_trade_size_usd :: 'a
  risk_tolerance :: string

text \<open>Modelled from the spec: the Order of section 3, built from a validated recommendation.\<close>

record 'a market_order =
  instrument :: string
  order_side :: side
  quote_amount :: 'a
  order_type :: string

text \<open>Modelled from the spec: why section 4.3 skips a cycle, one reason per rule that can reject.\<close>

datatype skip_reason = Parse_error | Unknown_action | Negative_amount | Unsupported_coin

text \<open>
  Modelled from the spec: what a cycle does that can be observed, its log lines and its
  POST requests to the order endpoint (sections 4.3 and 4.4).
\<close>

datatype 'a effect =
    Log_raw_text string
  | Log_clamp_warning 'a 'a
  | Log_rejected skip_reason
  | Log_simulated "'a market_order"
  | Log_order_placed string string
  | Log_order_failed
  | Network_post "'a market_order"

text \<open>
  Modelled from the spec: the output of the validator of section 4.3, a validated
  \<open>{action, coin, amount_usd}\<close>, the HOLD short-circuit, or a skip with its reason.
\<close>

datatype 'a decision = Validated side string 'a | No_order | Skip skip_reason

text \<open>
  Modelled from the spec: the Recommendation Validator of section 4.3 (the script's
  validation code is missing). The rules run in the order of the specification and the
  first failure wins:
  \<^enum> the text must parse (\<open>parse\<close>, a parameter, gives \<open>None\<close> when it does not or when a
    field is missing); a failure logs the raw text and skips the cycle;
  \<^enum> the action must be BUY, SELL or HOLD; HOLD ends the validation with no order;
  \<^enum> the amount must not be negative; an amount above \<open>max_trade_size_usd\<close> is clamped to
    it with a warning;
  \<^enum> the coin must be one the exchange supports (\<open>supported\<close>, a parameter); otherwise
    the recommendation is rejected and the cycle skipped.
\<close>

definition validate_recommendation :: "(string \<Rightarrow> 'a recommendation option) \<Rightarrow> 'a::{linorder,zero} risk_limits \<Rightarrow> (string \<Rightarrow> bool) \<Rightarrow> string \<Rightarrow> 'a decision \<times> 'a effect list" where
  "validate_recommendation parse limits supported raw =
     (case parse raw of
        None \<Rightarrow> (Skip Parse_error, [Log_raw_text raw])
      | Some r \<Rightarrow>
          if action r = ''HOLD'' then (No_order, [])
          else if action r \<noteq> ''BUY'' \<and> action r \<noteq> ''SELL'' then
            (Skip Unknown_action, [Log_rejected Unknown_action])
          else if amount_usd r < 0 then (Skip Negative_amount, [Log_rejected Negative_amount])
          else
            let cap = max_trade_size_usd limits;
                amount = (if cap < amount_usd r then cap else amount_usd r);
                warning = (if cap < amount_usd r then [Log_clamp_warning (amount_usd r) cap] else [])
            in if \<not> supported (coin r) then
                 (Skip Unsupported_coin, warning @ [Log_rejected Unsupported_coin])
               else (Validated (if action r = ''BUY'' then Buy else Sell) (coin r) amount, warning))"

text \<open>
  Modelled from the spec: the exchange's answer to one POST to the order endpoint
  (sections 4.4, 4.5 and 7): accepted with an order id and a fill status, a transient
  failure (timeout, 5xx, 429), or a failure that is not retried.
\<close>

datatype reply = Accepted string string | Transient_failure | Declined

text \<open>Modelled from the spec: whether the order placement of section 4.4 succeeded.\<close>

datatype order_result = Order_success | Order_failure

text \<open>
  Modelled from the spec: the retry policy of section 4.5 applied to the order POST of
  section 4.4 (the script's client is missing). \<open>exchange k\<close> is the answer to the \<open>k\<close>-th
  attempt; a transient failure is retried while retries are left.
\<close>

fun post_with_retry :: "(nat \<Rightarrow> reply) \<Rightarrow> 'a market_order \<Rightarrow> nat \<Rightarrow> nat \<Rightarrow> order_result \<times> 'a effect list" where
  "post_with_retry exchange ord attempt 0 =
     (case exchange attempt of
        Accepted order_id status \<Rightarrow>
          (Order_success, [Network_post ord, Log_order_placed order_id status])
      | Transient_failure \<Rightarrow> (Order_failure, [Network_post ord, Log_order_failed])
      | Declined \<Rightarrow> (Order_failure, [Network_post ord, Log_order_failed]))"
| "post_with_retry exchange ord attempt (Suc retries_left) =
     (case exchange attempt of
        Accepted order_id status \<Rightarrow>
          (Order_success, [Network_post ord, Log_order_placed order_id status])
      | Transient_failure \<Rightarrow>
          (let (result, effects) = post_with_retry exchange ord (Suc attempt) retries_left
           in (result, Network_post ord # effects))
      | Declined \<Rightarrow> (Order_failure, [Network_post ord, Log_order_failed]))"

text \<open>
  Modelled from the spec: Order Placement of section 4.4. In simulate mode the would-be
  order is logged as SIMULATED and the operation succeeds without a network call;
  otherwise the order is posted, with up to three retries.
\<close>

definition place_order :: "bool \<Rightarrow> (nat \<Rightarrow> reply) \<Rightarrow> 'a market_order \<Rightarrow> order_result \<times> 'a effect list" where
  "place_order simulate exchange ord =
     (if simulate then (Order_success, [Log_simulated ord])
      else post_with_retry exchange ord 0 3)"

text \<open>Modelled from the spec: the outcome of a cycle (section 7): success, skip or failure.\<close>

datatype cycle_result = Succeeded | Skipped skip_reason | Failed

text \<open>
  Modelled from the spec: the part of a cycle that follows the fetches (section 2:
  validate the recommendation, then place the order or simulate). A validated BUY or SELL
  becomes one market order.
\<close>

definition run_cycle :: "(string \<Rightarrow> 'a recommendation option) \<Rightarrow> 'a::{linorder,zero} risk_limits \<Rightarrow> (string \<Rightarrow> bool) \<Rightarrow> bool \<Rightarrow> (nat \<Rightarrow> reply) \<Rightarrow> string \<Rightarrow> cycle_result \<times> 'a effect list" where
  "run_cycle parse limits supported simulate exchange raw =
     (case validate_recommendation parse limits supported raw of
        (Skip reason, logged) \<Rightarrow> (Skipped reason, logged)
      | (No_order, logged) \<Rightarrow> (Succeeded, logged)
      | (Validated sd c amount, logged) \<Rightarrow>
          (let ord = \<lparr>instrument = c, order_side = sd, quote_amount = amount,
                      order_type = ''market''\<rparr>;
               (result, effects) = place_order simulate exchange ord
           in (if result = Order_success then Succeeded else Failed, logged @ effects)))"

text \<open>Modelled from the spec: the orders a list of effects submitted to the order endpoint.\<close>

fun posts :: "'a effect list \<Rightarrow> 'a market_order list" where
  "posts [] = []"
| "posts (Network_post ord # effects) = ord # posts effects"
| "posts (e # effects) = posts effects"

section \<open>Properties of the valuation\<close>

lemma valuation_loop_fst:
  "fst (valuation_loop prices xs (t, out)) =
     foldl (\<lambda>acc a. acc + quantity a * dict_get prices (symbol a) 0) t xs"
  by (induction xs arbitrary: t) simp_all

lemma valuation_loop_snd: "snd (valuation_loop prices xs (t, out)) = out"
  by (induction xs arbitrary: t) simp_all

lemma running_total_exact:
  fixes t :: "'a::semiring_0"
  shows "foldl (\<lambda>acc a. acc + quantity a * dict_get prices (symbol a) 0) t xs =
           t + value_in_quote xs prices"
proof (induction xs arbitrary: t)
  case Nil
  show ?case by (simp add: value_in_quote_def)
next
  case (Cons a xs)
  have step: "quantity a * dict_get prices (symbol a) 0 =
                (case prices (symbol a) of Some p \<Rightarrow> quantity a * p | None \<Rightarrow> 0)"
    by (simp add: dict_get_def split: option.split)
  show ?case
    using Cons.IH [of "t + quantity a * dict_get prices (symbol a) 0"]
    by (simp add: step value_in_quote_def add.assoc)
qed

lemma value_in_quote_mset:
  fixes xs :: "'a::semiring_0 asset list"
  shows "value_in_quote xs prices =
           (\<Sum>b\<in>#mset xs. case prices (symbol b) of Some v \<Rightarrow> quantity b * v | None \<Rightarrow> 0)"
proof -
  let ?f = "\<lambda>b::'a asset. case prices (symbol b) of Some v \<Rightarrow> quantity b * v | None \<Rightarrow> 0"
  have "value_in_quote xs prices = sum_list (map ?f xs)"
    by (simp only: value_in_quote_def)
  also have "\<dots> = sum_mset (mset (map ?f xs))"
    by (rule sum_mset_sum_list [symmetric])
  also have "\<dots> = sum_mset (image_mset ?f (mset xs))"
    by (simp only: mset_map)
  finally show ?thesis .
qed

subsection \<open>Float arithmetic\<close>

lemma floor_log2_bounds:
  assumes "q \<noteq> 0"
  shows "power_int 2 (floor_log2 q) \<le> \<bar>q\<bar>" and "\<bar>q\<bar> < power_int 2 (floor_log2 q + 1)"
proof -
  obtain a b where ab: "quotient_of \<bar>q\<bar> = (a, b)" by (cases "quotient_of \<bar>q\<bar>")
  have b: "0 < b" using ab by (rule quotient_of_denom_pos)
  have q: "\<bar>q\<bar> = of_int a / of_int b" using ab by (rule quotient_of_div)
  have "0 < \<bar>q\<bar>" using assms by simp
  then have a: "0 < a" using b q by (simp add: zero_less_divide_iff)
  define la where "la = bitlen a"
  define lb where "lb = bitlen b"
  have la: "0 < la" and lb: "0 < lb"
    using a b bitlen_eq_zero_iff [of a] bitlen_eq_zero_iff [of b] bitlen_nonneg [of a] bitlen_nonneg [of b]
    by (auto simp: la_def lb_def)
  have pw: "(2::rat) powi k = of_int (2 ^ nat k)" if "0 \<le> k" for k
    using that by (simp add: power_int_def)
  have a1: "(2::rat) powi (la - 1) \<le> of_int a" and a2: "of_int a < (2::rat) powi la"
    using bitlen_bounds [OF a] la unfolding pw [of "la - 1"] pw [of la] la_def [symmetric]
    by (simp_all only: of_int_le_iff of_int_less_iff pw)
  have b1: "(2::rat) powi (lb - 1) \<le> of_int b" and b2: "of_int b < (2::rat) powi lb"
    using bitlen_bounds [OF b] lb unfolding pw [of "lb - 1"] pw [of lb] lb_def [symmetric]
    by (simp_all only: of_int_le_iff of_int_less_iff pw)
  have pos: "0 < (2::rat) powi k" for k
    by simp
  have ra: "0 < (of_int a :: rat)" and rb: "0 < (of_int b :: rat)"
    using a b by simp_all
  have "\<bar>q\<bar> \<le> of_int a / 2 powi (lb - 1)"
    unfolding q using b1 ra rb pos [of "lb - 1"] by (simp add: frac_le)
  also have "\<dots> < 2 powi la / 2 powi (lb - 1)"
    using a2 pos [of "lb - 1"] by (simp add: divide_strict_right_mono)
  also have "\<dots> = 2 powi (la - (lb - 1))"
    by (simp add: power_int_diff)
  finally have up: "\<bar>q\<bar> < 2 powi (la - lb + 1)"
    by (simp add: algebra_simps)
  have "(2::rat) powi (la - lb - 1) = 2 powi ((la - 1) - lb)"
    by (simp add: algebra_simps)
  also have "\<dots> = 2 powi (la - 1) / 2 powi lb"
    by (simp add: power_int_diff)
  also have "\<dots> < 2 powi (la - 1) / of_int b"
    using b2 rb pos [of "la - 1"] by (simp add: divide_strict_left_mono)
  also have "\<dots> \<le> \<bar>q\<bar>"
    unfolding q using a1 rb by (simp add: divide_right_mono)
  finally have low: "2 powi (la - lb - 1) < \<bar>q\<bar>" .
  have fl: "floor_log2 q = (if 2 powi (la - lb) \<le> \<bar>q\<bar> then la - lb else la - lb - 1)"
    by (simp add: floor_log2_def ab la_def lb_def)
  show "power_int 2 (floor_log2 q) \<le> \<bar>q\<bar>"
    using low by (simp add: fl)
  show "\<bar>q\<bar> < power_int 2 (floor_log2 q + 1)"
    using up by (simp add: fl not_le)
qed

lemma round_half_even_between:
  "\<lfloor>q\<rfloor> \<le> round_half_even q \<and> round_half_even q \<le> \<lceil>q\<rceil>"
proof -
  have "\<lfloor>q\<rfloor> + 1 \<le> \<lceil>q\<rceil>" if "1 / 2 \<le> q - of_int \<lfloor>q\<rfloor>"
  proof -
    from that have "of_int \<lfloor>q\<rfloor> < q" by simp
    then have "\<lfloor>q\<rfloor> < \<lceil>q\<rceil>" by (simp add: less_ceiling_iff)
    then show ?thesis by simp
  qed
  moreover have "\<lfloor>q\<rfloor> \<le> \<lceil>q\<rceil>" by (rule floor_le_ceiling)
  ultimately show ?thesis
    by (auto simp: round_half_even_def Let_def not_less)
qed

lemma round_half_even_of_int: "round_half_even (of_int k) = k"
  by (simp add: round_half_even_def)


lemma round_half_even_abs_le:
  assumes "\<bar>q\<bar> \<le> of_int N"
  shows "\<bar>round_half_even q\<bar> \<le> N"
proof -
  from assms have "- N \<le> \<lfloor>q\<rfloor>" and "\<lceil>q\<rceil> \<le> N"
    by (simp_all add: le_floor_iff ceiling_le_iff abs_le_iff)
  with round_half_even_between [of q] show ?thesis by linarith
qed

lemma round_half_even_small:
  assumes "\<bar>q\<bar> < 1 / 2"
  shows "round_half_even q = 0"
proof (cases "0 \<le> q")
  case True
  with assms have "\<lfloor>q\<rfloor> = 0" by (simp add: floor_eq_iff)
  with assms True show ?thesis by (simp add: round_half_even_def)
next
  case False
  with assms have "\<lfloor>q\<rfloor> = - 1" by (simp add: floor_eq_iff) 
  with assms False show ?thesis by (simp add: round_half_even_def)
qed


lemma power_int_grid:
  assumes "m \<le> p"
  shows "\<exists>k. of_int n * (2::rat) powi p = of_int k * 2 powi m"
proof -
  have "(2::rat) powi p = 2 powi ((p - m) + m)" by simp
  also have "\<dots> = 2 powi (p - m) * 2 powi m"
    by (rule power_int_add) simp
  also have "(2::rat) powi (p - m) = of_int (2 ^ nat (p - m))"
    using assms by (simp add: power_int_def)
  finally have "of_int n * (2::rat) powi p = of_int (n * 2 ^ nat (p - m)) * 2 powi m"
    by simp
  then show ?thesis by blast
qed



lemma power_int_le_imp_le:
  assumes "(2::rat) powi m \<le> 2 powi n"
  shows "m \<le> n"
proof (rule ccontr)
  assume "\<not> m \<le> n"
  then have "n < m" by simp
  then have "(2::rat) powi n < 2 powi m" by (intro power_int_strict_increasing) simp_all
  with assms show False by simp
qed

lemma round64_exact:
  assumes "r \<noteq> 0" and "\<not> 1024 \<le> floor_log2 r"
    and "r = of_int m * 2 powi (max (floor_log2 r - 52) (- 1074))"
  shows "round64 r = Finite r"
proof -
  define p where "p = max (floor_log2 r - 52) (- 1074)"
  have "r / 2 powi p = of_int m"
    using assms(3) by (simp add: p_def [symmetric])
  then have "round_half_even (r / 2 powi p) = m"
    by (simp only: round_half_even_of_int)
  then have "of_int (round_half_even (r / 2 powi p)) * 2 powi p = r"
    using assms(3) by (simp add: p_def [symmetric])
  then show ?thesis
    using assms(1,2) by (simp add: round64_def Let_def p_def [symmetric])
qed

lemma round64_idem:
  assumes "round64 q = Finite r"
  shows "round64 r = Finite r"
proof (cases "r = 0")
  case True
  then show ?thesis by (simp add: round64_def)
next
  case r0: False
  with assms have q0: "q \<noteq> 0" by (auto simp: round64_def)
  define e where "e = floor_log2 q"
  define p where "p = max (e - 52) (- 1074)"
  define u :: rat where "u = 2 powi p"
  define n where "n = round_half_even (q / u)"
  have u: "0 < u" by (simp add: u_def)
  from assms q0 have r: "r = of_int n * u" and fin: "\<not> 1024 \<le> floor_log2 r"
    by (simp_all add: round64_def Let_def e_def p_def u_def n_def split: if_splits)
  from r r0 have n0: "n \<noteq> 0" by auto
  define e' where "e' = floor_log2 r"
  define p' where "p' = max (e' - 52) (- 1074)"
  have qu: "\<bar>q / u\<bar> < 2 powi (e + 1 - p)"
  proof -
    have "\<bar>q / u\<bar> = \<bar>q\<bar> / u" using u by simp
    also have "\<dots> < 2 powi (e + 1) / u"
      using floor_log2_bounds(2) [OF q0] u by (simp add: e_def divide_strict_right_mono)
    also have "\<dots> = 2 powi (e + 1 - p)"
      by (simp add: u_def power_int_diff)
    finally show ?thesis .
  qed
  have ep: "0 \<le> e + 1 - p"
  proof (rule ccontr)
    assume "\<not> 0 \<le> e + 1 - p"
    then have "e + 1 - p \<le> - 1" by simp
    then have "(2::rat) powi (e + 1 - p) \<le> 2 powi (- 1)"
      by (intro power_int_increasing) simp_all
    also have "(2::rat) powi (- 1) = 1 / 2"
      by (simp add: power_int_def)
    finally have "(2::rat) powi (e + 1 - p) \<le> 1 / 2" .
    with qu have "\<bar>q / u\<bar> < 1 / 2" by (rule less_le_trans)
    then have "n = 0" unfolding n_def by (rule round_half_even_small)
    with n0 show False by simp
  qed
  have "\<bar>q / u\<bar> \<le> of_int (2 ^ nat (e + 1 - p))"
    using qu ep by (simp add: power_int_def)
  then have nb: "\<bar>n\<bar> \<le> 2 ^ nat (e + 1 - p)"
    unfolding n_def by (rule round_half_even_abs_le)
  have rb: "\<bar>r\<bar> \<le> 2 powi (e + 1)"
  proof -
    have "\<bar>r\<bar> = of_int \<bar>n\<bar> * u" using u by (simp add: r abs_mult)
    also have "\<dots> \<le> of_int (2 ^ nat (e + 1 - p)) * u"
    proof (rule mult_right_mono)
      show "(of_int \<bar>n\<bar> :: rat) \<le> of_int (2 ^ nat (e + 1 - p))"
        using nb by (simp only: of_int_le_iff)
      show "0 \<le> u" using u by simp
    qed
    also have "(of_int (2 ^ nat (e + 1 - p)) :: rat) = 2 powi (e + 1 - p)"
      using ep by (simp add: power_int_def)
    also have "2 powi (e + 1 - p) * u = 2 powi (e + 1)"
      by (simp add: u_def power_int_add [symmetric])
    finally show ?thesis .
  qed
  have lo: "2 powi e' \<le> \<bar>r\<bar>"
    unfolding e'_def by (rule floor_log2_bounds(1) [OF r0])
  from lo rb have "(2::rat) powi e' \<le> 2 powi (e + 1)" by (rule order_trans)
  then have e'le: "e' \<le> e + 1" by (rule power_int_le_imp_le)
  have "\<exists>m. r = of_int m * 2 powi p'"
  proof (cases "p' \<le> p")
    case True
    from power_int_grid [OF True, of n] show ?thesis by (simp only: r u_def)
  next
    case False
    then have "p < p'" by simp
    moreover have "- 1074 \<le> p" and "e - 52 \<le> p" by (simp_all add: p_def)
    ultimately have p': "p' = e' - 52" and "e < e'" by (auto simp: p'_def max_def split: if_splits)
    with e'le have e': "e' = e + 1" by simp
    with lo rb have abs: "\<bar>r\<bar> = 2 powi (e + 1)" by simp
    have "e + 1 = 52 + p'"
      by (simp add: p' e')
    then have "(2::rat) powi (e + 1) = 2 powi (52 + p')"
      by (simp only:)
    also have "\<dots> = 2 powi 52 * 2 powi p'"
      by (rule power_int_add) simp
    also have "(2::rat) powi 52 = of_int (2 ^ 52)"
      by (simp add: power_int_def)
    finally have pw: "(2::rat) powi (e + 1) = of_int (2 ^ 52) * 2 powi p'" .
    show ?thesis
    proof (cases "0 \<le> r")
      case True
      with abs pw have "r = of_int (2 ^ 52) * 2 powi p'" by simp
      then show ?thesis by blast
    next
      case False
      with abs pw have "r = of_int (- (2 ^ 52)) * 2 powi p'" by simp
      then show ?thesis by blast
    qed
  qed
  then obtain m where "r = of_int m * 2 powi (max (floor_log2 r - 52) (- 1074))"
    unfolding p'_def e'_def by blast
  with r0 fin show ?thesis by (rule round64_exact)
qed

lemma is_float64_round64: "is_float64 (round64 q)"
  by (cases "round64 q") (simp_all add: is_float64_def round64_idem)

lemma is_float64_literal: "is_float64 (float_literal q)"
  by (simp add: float_literal_def is_float64_round64)

subsection \<open>The value returned\<close>







text \<open>Scenario A of the specification: 1 BTC at 84417 and 300 USDT at 1 are worth 84717.\<close>

lemma scenario_A:
  "portfolio_value
     \<lparr>currency = ''USDT'',
      assets = [\<lparr>symbol = ''BTC'', quantity = 1\<rparr>, \<lparr>symbol = ''USDT'', quantity = 300\<rparr>]\<rparr>
     [''BTC'' \<mapsto> 84417, ''USDT'' \<mapsto> 1] = (84717 :: int)"
  by (simp add: portfolio_value_def calculate_portfolio_value_def dict_get_def)

subsection \<open>No warning\<close>

text \<open>
  C2 as the specification states it: a balance entry whose symbol has no price makes the
  valuation emit a warning for that symbol. The code emits nothing. At the portfolio
  holding one unit of \<^verbatim>\<open>XYZ\<close> and the empty price map the symbol has no price, the value
  is 0 and no line is written.
\<close>

theorem missing_price_warning_counterexample:
  "''XYZ'' \<notin> dom (Map.empty :: int price_map)
   \<and> valuation_output
       \<lparr>currency = ''USDT'', assets = [\<lparr>symbol = ''XYZ'', quantity = 1\<rparr>]\<rparr>
       (Map.empty :: int price_map) = []
   \<and> portfolio_value
       \<lparr>currency = ''USDT'', assets = [\<lparr>symbol = ''XYZ'', quantity = 1\<rparr>]\<rparr>
       (Map.empty :: int price_map) = 0"
  by (simp add: valuation_output_def portfolio_value_def calculate_portfolio_value_def
      dict_get_def)

text \<open>
  C2, amended: for every portfolio and every price map, also when a balance entry's
  symbol has no price, the valuation writes no line at all: the zero contribution of a
  missing price is silent.
\<close>

theorem valuation_is_silent: "valuation_output p prices = []"
  by (simp add: valuation_output_def calculate_portfolio_value_def valuation_loop_snd)

subsection \<open>Reordering the balance list\<close>

text \<open>
  C3 as the specification states it: the total is the same for every order of the balance
  list. With Python floats it is not: \<^verbatim>\<open>9007199254740992.0 + 1.0\<close> lies halfway between
  two floats and rounds back to \<^verbatim>\<open>9007199254740992.0\<close>, twice, while \<^verbatim>\<open>1.0 + 1.0\<close> is added
  without loss.
\<close>

theorem reordering_counterexample:
  "mset [\<lparr>symbol = ''BTC'', quantity = Finite 9007199254740992\<rparr>,
         \<lparr>symbol = ''ETH'', quantity = Finite 1\<rparr>,
         \<lparr>symbol = ''SOL'', quantity = Finite 1\<rparr>]
   = mset [\<lparr>symbol = ''SOL'', quantity = Finite 1\<rparr>,
           \<lparr>symbol = ''ETH'', quantity = Finite 1\<rparr>,
           \<lparr>symbol = ''BTC'', quantity = Finite 9007199254740992\<rparr>]
   \<and> portfolio_value
       \<lparr>currency = ''USDT'',
        assets = [\<lparr>symbol = ''BTC'', quantity = Finite 9007199254740992\<rparr>,
                  \<lparr>symbol = ''ETH'', quantity = Finite 1\<rparr>,
                  \<lparr>symbol = ''SOL'', quantity = Finite 1\<rparr>]\<rparr>
       [''BTC'' \<mapsto> Finite 1, ''ETH'' \<mapsto> Finite 1, ''SOL'' \<mapsto> Finite 1]
     = Finite 9007199254740992
   \<and> portfolio_value
       \<lparr>currency = ''USDT'',
        assets = [\<lparr>symbol = ''SOL'', quantity = Finite 1\<rparr>,
                  \<lparr>symbol = ''ETH'', quantity = Finite 1\<rparr>,
                  \<lparr>symbol = ''BTC'', quantity = Finite 9007199254740992\<rparr>]\<rparr>
       [''BTC'' \<mapsto> Finite 1, ''ETH'' \<mapsto> Finite 1, ''SOL'' \<mapsto> Finite 1]
     = Finite 9007199254740994"
proof (intro conjI)
  show "mset [\<lparr>symbol = ''BTC'', quantity = Finite 9007199254740992\<rparr>,
         \<lparr>symbol = ''ETH'', quantity = Finite 1\<rparr>,
         \<lparr>symbol = ''SOL'', quantity = Finite 1\<rparr>]
   = mset [\<lparr>symbol = ''SOL'', quantity = Finite 1\<rparr>,
           \<lparr>symbol = ''ETH'', quantity = Finite 1\<rparr>,
           \<lparr>symbol = ''BTC'', quantity = Finite 9007199254740992\<rparr>]"
    by (simp add: add_mset_commute)
qed code_simp+

text \<open>
  C3, amended: when the arithmetic of the quantities and prices is exact (Python integers,
  or any semiring), the total is the same for every permutation of the balance list.
\<close>

theorem reordering_exact:
  fixes p q :: "'a::semiring_0 portfolio"
  assumes "mset (assets p) = mset (assets q)"
  shows "portfolio_value p prices = portfolio_value q prices"
proof -
  have sum: "portfolio_value r prices = value_in_quote (assets r) prices"
    for r :: "'a portfolio"
    using running_total_exact [of prices 0 "assets r"]
    by (simp add: portfolio_value_def calculate_portfolio_value_def valuation_loop_fst)
  have "value_in_quote (assets p) prices = value_in_quote (assets q) prices"
    by (simp only: value_in_quote_mset assms)
  then show ?thesis by (simp only: sum)
qed

theorem reordering_exact_witness:
  "mset [\<lparr>symbol = ''BTC'', quantity = 1\<rparr>, \<lparr>symbol = ''USDT'', quantity = 300\<rparr>]
   = mset [\<lparr>symbol = ''USDT'', quantity = 300\<rparr>, \<lparr>symbol = ''BTC'', quantity = (1::int)\<rparr>]
   \<and> portfolio_value
       \<lparr>currency = ''USDT'',
        assets = [\<lparr>symbol = ''BTC'', quantity = 1\<rparr>, \<lparr>symbol = ''USDT'', quantity = 300\<rparr>]\<rparr>
       [''BTC'' \<mapsto> 84417, ''USDT'' \<mapsto> 1]
     = portfolio_value
       \<lparr>currency = ''USDT'',
        assets = [\<lparr>symbol = ''USDT'', quantity = 300\<rparr>, \<lparr>symbol = ''BTC'', quantity = (1::int)\<rparr>]\<rparr>
       [''BTC'' \<mapsto> 84417, ''USDT'' \<mapsto> 1]"
proof -
  have perm:
    "mset (assets \<lparr>currency = ''USDT'',
        assets = [\<lparr>symbol = ''BTC'', quantity = 1\<rparr>, \<lparr>symbol = ''USDT'', quantity = 300\<rparr>]\<rparr>)
     = mset (assets \<lparr>currency = ''USDT'',
        assets = [\<lparr>symbol = ''USDT'', quantity = 300\<rparr>, \<lparr>symbol = ''BTC'', quantity = (1::int)\<rparr>]\<rparr>)"
    by (simp add: add_mset_commute)
  show ?thesis
    using perm reordering_exact [OF perm, of "[''BTC'' \<mapsto> 84417, ''USDT'' \<mapsto> 1]"]
    by simp
qed

subsection \<open>The recorded run\<close>

text \<open>
  The recorded run of the notebook printed the totals 95976.37 and 95944.52. On the same
  data and prices the model computes the floats that print so.
\<close>

lemma recorded_run:
  "portfolio_value portfolio1 recorded_prices = PyFloat (Finite (6595445923042279 / 68719476736))"
  "portfolio_value portfolio2 recorded_prices = PyFloat (Finite (3296628440491593 / 34359738368))"
  "\<bar>6595445923042279 / 68719476736 - 9597637 / 100\<bar> < (1 / 200 :: rat)"
  "\<bar>3296628440491593 / 34359738368 - 9594452 / 100\<bar> < (1 / 200 :: rat)"
  by code_simp+

subsection \<open>Price fetch\<close>

lemma COINGECKO_IDS_distinct: "distinct (map fst COINGECKO_IDS)"
  by (simp add: COINGECKO_IDS_def)

lemma request_params_literal:
  "request_params =
     [(''ids'', ''bitcoin,ethereum,dogecoin,solana,cardano,okb,tether,singularitynet''),
      (''vs_currencies'', ''usd'')]"
  by (simp add: request_params_def COINGECKO_IDS_def)

lemma dict_get_usd: "dict_get (dict_get data coin_id Map.empty) ''usd'' 0 = usd_price data coin_id"
  by (simp add: dict_get_def usd_price_def split: option.split)

lemma price_comprehension_result:
  assumes "set ks \<subseteq> fst ` set COINGECKO_IDS"
  shows "price_comprehension data ks prices =
           Inr (\<lambda>s. if s \<in> set ks then map_option (usd_price data) (map_of COINGECKO_IDS s)
                     else prices s)"
  using assms
proof (induction ks arbitrary: prices)
  case Nil
  show ?case by simp
next
  case (Cons k ks)
  from Cons.prems have "k \<in> fst ` set COINGECKO_IDS" by simp
  then obtain coin_id where k: "map_of COINGECKO_IDS k = Some coin_id"
    by (metis map_of_eq_None_iff not_Some_eq)
  from Cons.prems have sub: "set ks \<subseteq> fst ` set COINGECKO_IDS" by simp
  show ?case
    by (simp add: k dict_get_usd Cons.IH [OF sub] fun_eq_iff)
qed

lemma fetch_result:
  assumes "http_get api_url request_params = Inr data"
  shows "fetch_crypto_prices http_get =
           Inr (\<lambda>s. map_option (usd_price data) (map_of COINGECKO_IDS s),
                [[Text ''Fetched Prices:'',
                  Dict (\<lambda>s. map_option (usd_price data) (map_of COINGECKO_IDS s))]])"
proof -
  have "price_comprehension data (map fst COINGECKO_IDS) Map.empty =
          Inr (\<lambda>s. map_option (usd_price data) (map_of COINGECKO_IDS s))"
    by (subst price_comprehension_result) (auto simp: fun_eq_iff map_of_eq_None_iff [THEN iffD2] image_iff)
  then show ?thesis
    by (simp add: fetch_crypto_prices_def assms)
qed

text \<open>
  C4. The fetch queries the provider under the provider ids of the program's symbols
  (the request it sends is the one of the premise: the \<^verbatim>\<open>ids\<close> parameter lists the provider
  id of every symbol of the table), reads each symbol's price from the answer under that
  symbol's provider id, and gives price 0 to a symbol whose entry, or whose \<^verbatim>\<open>usd\<close> field,
  the answer lacks. Once the provider answers, the fetch returns.
\<close>

theorem fetch_translates_symbols:
  fixes http_get :: "'a::zero http_get"
  assumes "http_get ''https://api.coingecko.com/api/v3/simple/price''
             [(''ids'', ''bitcoin,ethereum,dogecoin,solana,cardano,okb,tether,singularitynet''),
              (''vs_currencies'', ''usd'')] = Inr data"
  shows "\<exists>prices out. fetch_crypto_prices http_get = Inr (prices, out)
           \<and> (\<forall>(symb, coin_id) \<in> set COINGECKO_IDS.
                 prices symb =
                   Some (case data coin_id of
                           None \<Rightarrow> 0
                         | Some entry \<Rightarrow> (case entry ''usd'' of None \<Rightarrow> 0 | Some v \<Rightarrow> v)))"
proof -
  have call: "http_get api_url request_params = Inr data"
    using assms by (simp only: api_url_def request_params_literal)
  have "map_option (usd_price data) (map_of COINGECKO_IDS symb) =
          Some (case data coin_id of
                  None \<Rightarrow> 0
                | Some entry \<Rightarrow> (case entry ''usd'' of None \<Rightarrow> 0 | Some v \<Rightarrow> v))"
    if "(symb, coin_id) \<in> set COINGECKO_IDS" for symb coin_id
    using map_of_is_SomeI [OF COINGECKO_IDS_distinct that] by (simp add: usd_price_def)
  then show ?thesis
    using fetch_result [of http_get data, OF call] by auto
qed

theorem fetch_translates_symbols_witness:
  "(\<lambda>url params. Inr [''bitcoin'' \<mapsto> [''usd'' \<mapsto> (84417::int)], ''tether'' \<mapsto> Map.empty])
       ''https://api.coingecko.com/api/v3/simple/price''
       [(''ids'', ''bitcoin,ethereum,dogecoin,solana,cardano,okb,tether,singularitynet''),
        (''vs_currencies'', ''usd'')]
     = (Inr [''bitcoin'' \<mapsto> [''usd'' \<mapsto> 84417], ''tether'' \<mapsto> Map.empty]
          :: py_error + int response)
   \<and> (\<exists>prices out.
         fetch_crypto_prices
           (\<lambda>url params. Inr [''bitcoin'' \<mapsto> [''usd'' \<mapsto> (84417::int)], ''tether'' \<mapsto> Map.empty])
           = Inr (prices, out)
         \<and> prices ''BTC'' = Some 84417 \<and> prices ''USDT'' = Some 0 \<and> prices ''ETH'' = Some 0)"
proof -
  let ?data = "[''bitcoin'' \<mapsto> [''usd'' \<mapsto> (84417::int)], ''tether'' \<mapsto> Map.empty]"
  let ?h = "(\<lambda>url params. Inr ?data) :: int http_get"
  have call: "?h ''https://api.coingecko.com/api/v3/simple/price''
       [(''ids'', ''bitcoin,ethereum,dogecoin,solana,cardano,okb,tether,singularitynet''),
        (''vs_currencies'', ''usd'')] = Inr ?data"
    by simp
  have btc: "(''BTC'', ''bitcoin'') \<in> set COINGECKO_IDS"
    and usdt: "(''USDT'', ''tether'') \<in> set COINGECKO_IDS"
    and eth: "(''ETH'', ''ethereum'') \<in> set COINGECKO_IDS"
    by (simp_all add: COINGECKO_IDS_def)
  from fetch_translates_symbols [OF call] obtain prices out
    where ret: "fetch_crypto_prices ?h = Inr (prices, out)"
      and all: "\<forall>(symb, coin_id) \<in> set COINGECKO_IDS.
                 prices symb =
                   Some (case ?data coin_id of
                           None \<Rightarrow> 0
                         | Some entry \<Rightarrow> (case entry ''usd'' of None \<Rightarrow> 0 | Some v \<Rightarrow> v))"
    by blast
  from all btc have "prices ''BTC'' = Some 84417" by fastforce
  moreover from all usdt have "prices ''USDT'' = Some 0" by fastforce
  moreover from all eth have "prices ''ETH'' = Some 0" by fastforce
  ultimately show ?thesis using ret by auto
qed

text \<open>
  C10. The price map the fetch returns has exactly the eight symbols of \<^verbatim>\<open>COINGECKO_IDS\<close> as
  its keys, whatever the provider answered, and each value is 0 or the \<^verbatim>\<open>usd\<close> price the
  answer holds under the symbol's provider id.
\<close>

theorem fetched_keys_fixed:
  fixes http_get :: "'a::zero http_get"
  assumes "fetch_crypto_prices http_get = Inr (prices, out)"
  shows "dom prices = {''BTC'', ''ETH'', ''DOGE'', ''SOL'', ''ADA'', ''OKB'', ''USDT'', ''AGIX''}
         \<and> (\<exists>data. http_get api_url request_params = Inr data
               \<and> (\<forall>symb v. prices symb = Some v \<longrightarrow>
                     (\<exists>coin_id. (symb, coin_id) \<in> set COINGECKO_IDS
                        \<and> (v = 0 \<or> (\<exists>entry. data coin_id = Some entry \<and> entry ''usd'' = Some v)))))"
proof -
  from assms obtain data where call: "http_get api_url request_params = Inr data"
    by (auto simp: fetch_crypto_prices_def split: sum.splits)
  from assms have prices: "prices = (\<lambda>s. map_option (usd_price data) (map_of COINGECKO_IDS s))"
    using fetch_result [of http_get data, OF call] by simp
  have "dom prices = fst ` set COINGECKO_IDS"
    by (auto simp: prices dom_def map_of_eq_None_iff)
  then have keys: "dom prices = {''BTC'', ''ETH'', ''DOGE'', ''SOL'', ''ADA'', ''OKB'', ''USDT'', ''AGIX''}"
    by (simp add: COINGECKO_IDS_def)
  have "\<exists>coin_id. (symb, coin_id) \<in> set COINGECKO_IDS
          \<and> (v = 0 \<or> (\<exists>entry. data coin_id = Some entry \<and> entry ''usd'' = Some v))"
    if "prices symb = Some v" for symb v
  proof -
    from that obtain coin_id where m: "map_of COINGECKO_IDS symb = Some coin_id"
      and v: "v = usd_price data coin_id"
      by (auto simp: prices)
    from m have "(symb, coin_id) \<in> set COINGECKO_IDS" by (rule map_of_SomeD)
    moreover have "v = 0 \<or> (\<exists>entry. data coin_id = Some entry \<and> entry ''usd'' = Some v)"
      by (simp add: v usd_price_def split: option.split)
    ultimately show ?thesis by blast
  qed
  with keys call show ?thesis by blast
qed

theorem fetched_keys_fixed_witness:
  "\<exists>prices out.
     fetch_crypto_prices
       ((\<lambda>url params. Inr [''bitcoin'' \<mapsto> [''usd'' \<mapsto> 84417]]) :: int http_get) = Inr (prices, out)
     \<and> dom prices = {''BTC'', ''ETH'', ''DOGE'', ''SOL'', ''ADA'', ''OKB'', ''USDT'', ''AGIX''}"
proof -
  let ?h = "(\<lambda>url params. Inr [''bitcoin'' \<mapsto> [''usd'' \<mapsto> 84417]]) :: int http_get"
  obtain prices out where ret: "fetch_crypto_prices ?h = Inr (prices, out)"
    using fetch_result [of ?h "[''bitcoin'' \<mapsto> [''usd'' \<mapsto> 84417]]"] by simp
  have keys: "dom prices = {''BTC'', ''ETH'', ''DOGE'', ''SOL'', ''ADA'', ''OKB'', ''USDT'', ''AGIX''}"
    using fetched_keys_fixed [OF ret] by (rule conjunct1)
  show ?thesis
    by (rule exI [of _ prices], rule exI [of _ out], rule conjI [OF ret keys])
qed

subsection \<open>Comparison\<close>






text \<open>
  The recorded run went on to print \<^verbatim>\<open>AI Portfolio performed better! 31.85$\<close>: the
  comparison of the two totals takes the first branch, with the difference that prints so.
\<close>

lemma recorded_comparison:
  "compare_portfolios (PyFloat (Finite (6595445923042279 / 68719476736)))
     (PyFloat (Finite (3296628440491593 / 34359738368)))
   = [Text ''AI Portfolio performed better! '',
      Fixed2 (PyFloat (Finite (2189042059093 / 68719476736))), Text ''$'']"
  "\<bar>2189042059093 / 68719476736 - 3185 / 100\<bar> < (1 / 200 :: rat)"
proof -
  have gt: "PyFloat (Finite (6595445923042279 / 68719476736))
              > PyFloat (Finite (3296628440491593 / 34359738368))"
    by (simp add: less_pynum_def exact_value_def less_pyfloat_def)
  have diff: "PyFloat (Finite (6595445923042279 / 68719476736))
                - PyFloat (Finite (3296628440491593 / 34359738368))
              = PyFloat (Finite (2189042059093 / 68719476736))"
    by code_simp
  from gt show "compare_portfolios (PyFloat (Finite (6595445923042279 / 68719476736)))
     (PyFloat (Finite (3296628440491593 / 34359738368)))
   = [Text ''AI Portfolio performed better! '',
      Fixed2 (PyFloat (Finite (2189042059093 / 68719476736))), Text ''$'']"
    by (simp only: compare_portfolios_def diff if_True)
  show "\<bar>2189042059093 / 68719476736 - 3185 / 100\<bar> < (1 / 200 :: rat)"
    by simp
qed

section \<open>Properties of the auto-trader as specified\<close>

text \<open>
  C5 as the specification states it: a parsed BUY or SELL whose amount is not negative and
  exceeds \<open>max_trade_size_usd\<close> is clamped and proceeds to order construction, and is never
  rejected. Rule 4 of the validator still rejects it when its coin is not supported: a BUY
  of 10000 of \<^verbatim>\<open>XYZ\<close> under a cap of 5000, where only \<^verbatim>\<open>BTC\<close> and \<^verbatim>\<open>NEAR\<close> are supported, is
  clamped and then skipped.
\<close>

theorem clamped_but_rejected_counterexample:
  "validate_recommendation
     (\<lambda>raw. Some \<lparr>action = ''BUY'', coin = ''XYZ'', amount_usd = 10000, reasoning = None\<rparr>)
     \<lparr>max_trade_size_usd = (5000::int), risk_tolerance = ''medium''\<rparr>
     (\<lambda>c. c = ''BTC'' \<or> c = ''NEAR'') ''{...}''
   = (Skip Unsupported_coin, [Log_clamp_warning 10000 5000, Log_rejected Unsupported_coin])
   \<and> run_cycle
     (\<lambda>raw. Some \<lparr>action = ''BUY'', coin = ''XYZ'', amount_usd = 10000, reasoning = None\<rparr>)
     \<lparr>max_trade_size_usd = (5000::int), risk_tolerance = ''medium''\<rparr>
     (\<lambda>c. c = ''BTC'' \<or> c = ''NEAR'') True (\<lambda>k. Declined) ''{...}''
   = (Skipped Unsupported_coin, [Log_clamp_warning 10000 5000, Log_rejected Unsupported_coin])"
  by (simp add: run_cycle_def validate_recommendation_def)

text \<open>
  C5, amended: a parsed BUY or SELL whose amount is not negative and exceeds
  \<open>max_trade_size_usd\<close>, and whose coin the exchange supports, is clamped to
  \<open>max_trade_size_usd\<close> with a logged warning and proceeds to order construction: the cycle
  places (or simulates) the order of the clamped amount and is not skipped. The amount
  alone never rejects a recommendation.
\<close>

theorem oversized_amount_is_clamped:
  fixes limits :: "'a::{linorder,zero} risk_limits"
  assumes "parse raw = Some r"
    and "action r = ''BUY'' \<or> action r = ''SELL''"
    and "0 \<le> amount_usd r"
    and "max_trade_size_usd limits < amount_usd r"
    and "supported (coin r)"
  shows "validate_recommendation parse limits supported raw =
           (Validated (if action r = ''BUY'' then Buy else Sell) (coin r) (max_trade_size_usd limits),
            [Log_clamp_warning (amount_usd r) (max_trade_size_usd limits)])
         \<and> snd (run_cycle parse limits supported simulate exchange raw) =
             Log_clamp_warning (amount_usd r) (max_trade_size_usd limits) #
             snd (place_order simulate exchange
                    \<lparr>instrument = coin r,
                     order_side = (if action r = ''BUY'' then Buy else Sell),
                     quote_amount = max_trade_size_usd limits,
                     order_type = ''market''\<rparr>)
         \<and> fst (run_cycle parse limits supported simulate exchange raw) \<in> {Succeeded, Failed}"
proof -
  have not_neg: "\<not> amount_usd r < 0"
    using assms(3) by simp
  have v: "validate_recommendation parse limits supported raw =
           (Validated (if action r = ''BUY'' then Buy else Sell) (coin r) (max_trade_size_usd limits),
            [Log_clamp_warning (amount_usd r) (max_trade_size_usd limits)])"
    using assms(1,2,4,5) not_neg by (auto simp: validate_recommendation_def Let_def)
  show ?thesis
    by (simp add: v run_cycle_def split: prod.split)
qed

theorem oversized_amount_is_clamped_witness:
  "validate_recommendation
     (\<lambda>raw. Some \<lparr>action = ''BUY'', coin = ''NEAR'', amount_usd = 10000, reasoning = None\<rparr>)
     \<lparr>max_trade_size_usd = (5000::int), risk_tolerance = ''medium''\<rparr>
     (\<lambda>c. c = ''BTC'' \<or> c = ''NEAR'') ''{...}''
   = (Validated Buy ''NEAR'' 5000, [Log_clamp_warning 10000 5000])
   \<and> run_cycle
     (\<lambda>raw. Some \<lparr>action = ''BUY'', coin = ''NEAR'', amount_usd = 10000, reasoning = None\<rparr>)
     \<lparr>max_trade_size_usd = (5000::int), risk_tolerance = ''medium''\<rparr>
     (\<lambda>c. c = ''BTC'' \<or> c = ''NEAR'') True (\<lambda>k. Declined) ''{...}''
   = (Succeeded,
      [Log_clamp_warning 10000 5000,
       Log_simulated \<lparr>instrument = ''NEAR'', order_side = Buy, quote_amount = 5000,
                      order_type = ''market''\<rparr>])"
proof -
  let ?r = "\<lparr>action = ''BUY'', coin = ''NEAR'', amount_usd = (10000::int), reasoning = None\<rparr>"
  let ?limits = "\<lparr>max_trade_size_usd = (5000::int), risk_tolerance = ''medium''\<rparr>"
  have h1: "(\<lambda>raw. Some ?r) ''{...}'' = Some ?r" by simp
  have h2: "action ?r = ''BUY'' \<or> action ?r = ''SELL''" by simp
  have h3: "0 \<le> amount_usd ?r" by simp
  have h4: "max_trade_size_usd ?limits < amount_usd ?r" by simp
  have h5: "(\<lambda>c. c = ''BTC'' \<or> c = ''NEAR'') (coin ?r)" by simp
  have run: "fst (run_cycle (\<lambda>raw. Some ?r) ?limits (\<lambda>c. c = ''BTC'' \<or> c = ''NEAR'') True
               (\<lambda>k. Declined) ''{...}'') = Succeeded"
    by (simp add: run_cycle_def validate_recommendation_def place_order_def)
  show ?thesis
    using oversized_amount_is_clamped
            [of "\<lambda>raw. Some ?r" "''{...}''" ?r ?limits "\<lambda>c. c = ''BTC'' \<or> c = ''NEAR''" True
                "\<lambda>k. Declined", OF h1 h2 h3 h4 h5] run
    by (simp add: place_order_def prod_eq_iff)
qed

text \<open>
  C6. A recommendation whose action is HOLD, whatever its coin, amount and reasoning,
  makes the cycle submit no order and succeed.
\<close>

theorem hold_submits_nothing:
  fixes limits :: "'a::{linorder,zero} risk_limits"
  assumes "parse raw = Some r" and "action r = ''HOLD''"
  shows "fst (run_cycle parse limits supported simulate exchange raw) = Succeeded
         \<and> posts (snd (run_cycle parse limits supported simulate exchange raw)) = []"
  using assms by (simp add: run_cycle_def validate_recommendation_def)

theorem hold_submits_nothing_witness:
  "fst (run_cycle
     (\<lambda>raw. Some \<lparr>action = ''HOLD'', coin = ''XYZ'', amount_usd = - 7, reasoning = None\<rparr>)
     \<lparr>max_trade_size_usd = (5000::int), risk_tolerance = ''medium''\<rparr>
     (\<lambda>c. c = ''BTC'') False (\<lambda>k. Accepted ''1'' ''filled'') ''{...}'') = Succeeded
   \<and> posts (snd (run_cycle
     (\<lambda>raw. Some \<lparr>action = ''HOLD'', coin = ''XYZ'', amount_usd = - 7, reasoning = None\<rparr>)
     \<lparr>max_trade_size_usd = (5000::int), risk_tolerance = ''medium''\<rparr>
     (\<lambda>c. c = ''BTC'') False (\<lambda>k. Accepted ''1'' ''filled'') ''{...}'')) = []"
proof -
  let ?r = "\<lparr>action = ''HOLD'', coin = ''XYZ'', amount_usd = (- 7::int), reasoning = None\<rparr>"
  have h1: "(\<lambda>raw. Some ?r) ''{...}'' = Some ?r" by simp
  have h2: "action ?r = ''HOLD''" by simp
  show ?thesis
    using hold_submits_nothing
            [of "\<lambda>raw. Some ?r" "''{...}''" ?r
                "\<lparr>max_trade_size_usd = (5000::int), risk_tolerance = ''medium''\<rparr>"
                "\<lambda>c. c = ''BTC''" False "\<lambda>k. Accepted ''1'' ''filled''", OF h1 h2]
    by simp
qed

lemma posts_append: "posts (xs @ ys) = posts xs @ posts ys"
  by (induction xs rule: posts.induct) simp_all

lemma posts_validation:
  "posts (snd (validate_recommendation parse limits supported raw)) = []"
  by (simp add: validate_recommendation_def Let_def split: option.split)

text \<open>
  C7. In simulate mode the order placement builds the order, logs it as SIMULATED and
  succeeds, and that log line is all it does; a whole cycle in simulate mode issues no
  POST to the order endpoint, whatever the recommendation.
\<close>

theorem simulate_never_posts:
  fixes limits :: "'a::{linorder,zero} risk_limits"
  shows "place_order True exchange ord = (Order_success, [Log_simulated ord])
         \<and> posts (snd (run_cycle parse limits supported True exchange raw)) = []"
proof
  show "place_order True exchange ord = (Order_success, [Log_simulated ord])"
    by (simp add: place_order_def)
next
  obtain d logged where v: "validate_recommendation parse limits supported raw = (d, logged)"
    by (cases "validate_recommendation parse limits supported raw")
  have logged: "posts logged = []"
    using posts_validation [of parse limits supported raw] by (simp add: v)
  show "posts (snd (run_cycle parse limits supported True exchange raw)) = []"
    by (cases d) (simp_all add: run_cycle_def v logged posts_append place_order_def)
qed

end
